theory Spec2Isabelle
  imports Main "HOL-Library.Sublist"
begin

section \<open>The item store of \<open>src/node/app.js\<close>\<close>

text \<open>
  The program keeps one module-level array \<open>items\<close> and serves four Express routes on it:
  \<^verbatim>\<open>GET /items\<close>, \<^verbatim>\<open>POST /items\<close>, \<^verbatim>\<open>PUT /items/:id\<close> and \<^verbatim>\<open>DELETE /items/:id\<close>.
  Each handler is embedded as a function from its inputs (\<open>req.params.id\<close>, the value of
  \<open>req.body.name\<close>) and the array before the request to an outcome: the array after the
  request, the responses written to \<open>res\<close> in order, and the exception the handler body
  raised, if any.
\<close>

subsection \<open>Values and items\<close>

text \<open>
  The value of the expression \<open>req.body.name\<close>, where \<open>req.body\<close> is the object that the
  \<open>express.json()\<close> middleware produced. A missing property reads as \<open>undefined\<close>.
  No handler inspects or computes with this value; number payloads are carried as integers.
\<close>

datatype jsvalue =
    JUndefined
  | JNull
  | JBool bool
  | JNumber int
  | JString string
  | JArray "jsvalue list"
  | JObject "(string \<times> jsvalue) list"

text \<open>
  An element of \<open>items\<close>: \<^verbatim>\<open>{id: ..., name: ...}\<close>. The field \<open>id\<close> is named
  \<open>item_id\<close> here because \<open>id\<close> is the identity function of HOL. Every id the program
  stores is \<open>1\<close> or \<open>items.length + 1\<close>, an integer.
\<close>

record item =
  item_id :: int
  name :: jsvalue

text \<open>\<^verbatim>\<open>let items = [{id: 1, name: 'Element'}];\<close>\<close>

definition initial_items :: "item list" where
  "initial_items = [\<lparr>item_id = 1, name = JString ''Element''\<rparr>]"

subsection \<open>Responses and outcomes\<close>

datatype body =
    JsonItems "item list"
  | JsonItem item
  | Text string
  | Empty

record response =
  status :: nat
  body :: body

datatype js_error = TypeError

record outcome =
  store :: "item list"
  sent :: "response list"
  thrown :: "js_error option"

subsection \<open>The builtin \<open>parseInt\<close>\<close>

text \<open>
  \<open>parseInt(string)\<close> with no radix argument, after ECMAScript 19.2.5. A \<open>string\<close> stands
  for a JavaScript string whose code units are all below 256, one \<open>char\<close> per code unit.
  The result \<open>None\<close> is \<open>NaN\<close>; \<open>Some n\<close> is the Number denoting the integer \<open>n\<close>
  (exact up to \<open>2^53\<close> in magnitude, which covers every id the array, of length below
  \<open>2^32\<close>, can hold).
\<close>

text \<open>White space and line terminators among the code units below 256:
  TAB, LF, VT, FF, CR, SP and NBSP.\<close>

definition is_whitespace :: "char \<Rightarrow> bool" where
  "is_whitespace c =
     (let u = (of_char c :: nat)
      in u = 9 \<or> u = 10 \<or> u = 11 \<or> u = 12 \<or> u = 13 \<or> u = 32 \<or> u = 160)"

text \<open>The value of a code unit as a digit: \<open>0-9\<close>, then \<open>a-z\<close> and \<open>A-Z\<close> for 10 to 35.\<close>

definition digit_value :: "char \<Rightarrow> nat option" where
  "digit_value c =
     (let u = (of_char c :: nat)
      in if 48 \<le> u \<and> u \<le> 57 then Some (u - 48)
         else if 97 \<le> u \<and> u \<le> 122 then Some (u - 87)
         else if 65 \<le> u \<and> u \<le> 90 then Some (u - 55)
         else None)"

definition radix_digit :: "nat \<Rightarrow> char \<Rightarrow> nat option" where
  "radix_digit R c =
     (case digit_value c of
        None \<Rightarrow> None
      | Some d \<Rightarrow> if d < R then Some d else None)"

definition is_radix_digit :: "nat \<Rightarrow> char \<Rightarrow> bool" where
  "is_radix_digit R c = (case radix_digit R c of None \<Rightarrow> False | Some d \<Rightarrow> True)"

text \<open>The integer that the digit string \<open>Z\<close> denotes in radix \<open>R\<close>.\<close>

fun math_int :: "nat \<Rightarrow> nat \<Rightarrow> string \<Rightarrow> nat" where
  "math_int R acc [] = acc"
| "math_int R acc (c # cs) =
     math_int R (acc * R + (case radix_digit R c of None \<Rightarrow> 0 | Some d \<Rightarrow> d)) cs"

definition parseInt :: "string \<Rightarrow> int option" where
  "parseInt inputString =
     (let S = dropWhile is_whitespace inputString;
          sign = (case S of [] \<Rightarrow> 1 | c # r \<Rightarrow> if c = CHR ''-'' then - 1 else (1 :: int));
          S1 = (case S of [] \<Rightarrow> S
                | c # r \<Rightarrow> if c = CHR ''+'' \<or> c = CHR ''-'' then r else S);
          stripPrefix = (case S1 of
                           a # b # r \<Rightarrow> a = CHR ''0'' \<and> (b = CHR ''x'' \<or> b = CHR ''X'')
                         | _ \<Rightarrow> False);
          R = (if stripPrefix then 16 else 10);
          S2 = (if stripPrefix then drop 2 S1 else S1);
          Z = takeWhile (is_radix_digit R) S2
      in if Z = [] then None else Some (sign * int (math_int R 0 Z)))"

text \<open>
  \<open>x === parseInt(...)\<close> for a stored id \<open>x\<close>: \<open>NaN\<close> is strictly equal to nothing.
\<close>

definition strict_equals :: "int \<Rightarrow> int option \<Rightarrow> bool" where
  "strict_equals x y = (case y of None \<Rightarrow> False | Some n \<Rightarrow> x = n)"

subsection \<open>The handlers\<close>

text \<open>
  \<open>Array.prototype.find\<close> returns the first element that satisfies the predicate, or
  \<open>undefined\<close>. The element is an object shared with the array, so that writing to it
  writes to the array; no two positions of \<open>items\<close> ever hold the same object (every
  element is the seed or a fresh object literal, and \<open>filter\<close> keeps each element at most
  once). The reference is therefore the position of the first match.
\<close>

fun find_ref :: "('a \<Rightarrow> bool) \<Rightarrow> 'a list \<Rightarrow> nat option" where
  "find_ref P [] = None"
| "find_ref P (x # xs) = (if P x then Some 0 else map_option Suc (find_ref P xs))"

text \<open>\<^verbatim>\<open>app.get('/items', (req, res) => { res.json(items); });\<close>\<close>

definition get_items :: "item list \<Rightarrow> outcome" where
  "get_items items =
     \<lparr>store = items, sent = [\<lparr>status = 200, body = JsonItems items\<rparr>], thrown = None\<rparr>"

text \<open>
  \<^verbatim>\<open>app.post('/items', (req, res) => {
    const newItem = { id: items.length + 1, name: req.body.name };
    items.push(newItem);
    res.status(201).json(newItem);
  });\<close>
\<close>

definition post_items :: "jsvalue \<Rightarrow> item list \<Rightarrow> outcome" where
  "post_items body_name items =
     (let newItem = \<lparr>item_id = int (length items) + 1, name = body_name\<rparr>
      in \<lparr>store = items @ [newItem],
          sent = [\<lparr>status = 201, body = JsonItem newItem\<rparr>],
          thrown = None\<rparr>)"

text \<open>
  \<^verbatim>\<open>app.put('/items/:id', (req, res) => {
    let item = items.find(i => i.id === parseInt(req.params.id));
    if(!item) res.status(404).send('Item not found');
    item.name = req.body.name;
    res.json(item);
  });\<close>
  The \<open>if\<close> has no \<open>return\<close>: after the 404 response the assignment runs with
  \<open>item\<close> undefined and raises a TypeError, which ends the handler before \<open>res.json\<close>.
\<close>

definition put_items :: "string \<Rightarrow> jsvalue \<Rightarrow> item list \<Rightarrow> outcome" where
  "put_items params_id body_name items =
     (let item = find_ref (\<lambda>i. strict_equals (item_id i) (parseInt params_id)) items;
          sent1 = (if item = None then [\<lparr>status = 404, body = Text ''Item not found''\<rparr>]
                   else [])
      in case item of
           None \<Rightarrow> \<lparr>store = items, sent = sent1, thrown = Some TypeError\<rparr>
         | Some r \<Rightarrow>
             (let items' = items[r := (items ! r)\<lparr>name := body_name\<rparr>]
              in \<lparr>store = items',
                  sent = sent1 @ [\<lparr>status = 200, body = JsonItem (items' ! r)\<rparr>],
                  thrown = None\<rparr>))"

text \<open>
  \<^verbatim>\<open>app.delete('/items/:id', (req, res) => {
    items = items.filter(i => i.id !== parseInt(req.params.id));
    res.status(204).send();
  });\<close>
\<close>

definition delete_items :: "string \<Rightarrow> item list \<Rightarrow> outcome" where
  "delete_items params_id items =
     \<lparr>store = filter (\<lambda>i. \<not> strict_equals (item_id i) (parseInt params_id)) items,
      sent = [\<lparr>status = 204, body = Empty\<rparr>],
      thrown = None\<rparr>"

subsection \<open>Serving requests in sequence\<close>

text \<open>
  Node runs one handler at a time to completion, each on the array the previous one left.
\<close>

datatype request =
    GET_items
  | POST_items jsvalue
  | PUT_items string jsvalue
  | DELETE_items string

fun handle :: "request \<Rightarrow> item list \<Rightarrow> outcome" where
  "handle GET_items items = get_items items"
| "handle (POST_items body_name) items = post_items body_name items"
| "handle (PUT_items params_id body_name) items = put_items params_id body_name items"
| "handle (DELETE_items params_id) items = delete_items params_id items"

text \<open>The outcomes of a sequence of requests, and the array after all of them.\<close>

fun serve :: "request list \<Rightarrow> item list \<Rightarrow> outcome list" where
  "serve [] items = []"
| "serve (r # rs) items = handle r items # serve rs (store (handle r items))"

fun items_after :: "request list \<Rightarrow> item list \<Rightarrow> item list" where
  "items_after [] items = items"
| "items_after (r # rs) items = items_after rs (store (handle r items))"

section \<open>Auxiliary facts\<close>

lemmas parse_defs =
  parseInt_def is_whitespace_def is_radix_digit_def radix_digit_def digit_value_def

lemma strict_equals_Some [simp]: "strict_equals x (Some k) = (x = k)"
  by (simp add: strict_equals_def)

lemma strict_equals_None [simp]: "strict_equals x None = False"
  by (simp add: strict_equals_def)

lemma find_ref_None_iff: "(find_ref P xs = None) = (\<forall>x\<in>set xs. \<not> P x)"
  by (induction xs) auto

lemma find_ref_SomeD:
  "find_ref P xs = Some r \<Longrightarrow> r < length xs \<and> P (xs ! r) \<and> (\<forall>j<r. \<not> P (xs ! j))"
proof (induction xs arbitrary: r)
  case Nil
  then show ?case by simp
next
  case (Cons x xs)
  show ?case
  proof (cases "P x")
    case True
    with Cons.prems show ?thesis by simp
  next
    case False
    with Cons.prems obtain r' where r': "find_ref P xs = Some r'" "r = Suc r'"
      by auto
    from Cons.IH [OF r'(1)] False r'(2) show ?thesis
      by (auto simp: nth_Cons split: nat.splits)
  qed
qed

text \<open>The two paths through the PUT handler.\<close>

lemma put_items_not_found:
  assumes "find_ref (\<lambda>i. strict_equals (item_id i) (parseInt seg)) items = None"
  shows "put_items seg v items =
     \<lparr>store = items, sent = [\<lparr>status = 404, body = Text ''Item not found''\<rparr>],
      thrown = Some TypeError\<rparr>"
  using assms by (simp add: put_items_def)

lemma put_items_at:
  assumes "find_ref (\<lambda>i. strict_equals (item_id i) (parseInt seg)) items = Some r"
  shows "put_items seg v items =
     \<lparr>store = items[r := (items ! r)\<lparr>name := v\<rparr>],
      sent = [\<lparr>status = 200, body = JsonItem ((items ! r)\<lparr>name := v\<rparr>)\<rparr>],
      thrown = None\<rparr>"
proof -
  from find_ref_SomeD [OF assms] have "r < length items" by simp
  with assms show ?thesis by (simp add: put_items_def Let_def)
qed

lemma put_items_ids: "map item_id (store (put_items seg v items)) = map item_id items"
proof (cases "find_ref (\<lambda>i. strict_equals (item_id i) (parseInt seg)) items")
  case None
  then show ?thesis by (simp add: put_items_not_found)
next
  case (Some r)
  from find_ref_SomeD [OF Some] have "r < length items" by simp
  then show ?thesis
    by (simp add: put_items_at [OF Some] map_update list_update_same_conv)
qed

text \<open>
  The end-to-end scenario of the specification, run on the model: POST \<open>Pen\<close>, GET,
  PUT \<open>Pencil\<close> on id 2, DELETE id 1, GET.
\<close>

lemma end_to_end_scenario:
  "map sent (serve [POST_items (JString ''Pen''), GET_items,
                    PUT_items ''2'' (JString ''Pencil''), DELETE_items ''1'', GET_items]
               initial_items)
     = [[\<lparr>status = 201, body = JsonItem \<lparr>item_id = 2, name = JString ''Pen''\<rparr>\<rparr>],
        [\<lparr>status = 200, body = JsonItems [\<lparr>item_id = 1, name = JString ''Element''\<rparr>,
                                          \<lparr>item_id = 2, name = JString ''Pen''\<rparr>]\<rparr>],
        [\<lparr>status = 200, body = JsonItem \<lparr>item_id = 2, name = JString ''Pencil''\<rparr>\<rparr>],
        [\<lparr>status = 204, body = Empty\<rparr>],
        [\<lparr>status = 200, body = JsonItems [\<lparr>item_id = 2, name = JString ''Pencil''\<rparr>]\<rparr>]]"
  by (simp add: initial_items_def get_items_def post_items_def put_items_def delete_items_def
      parse_defs Let_def)

section \<open>Properties\<close>

subsection \<open>The seed\<close>

text \<open>
  C7. Before any request the store holds exactly one item, \<open>{id: 1, name: "Element"}\<close>,
  and listing that store answers 200 with exactly that item.
\<close>

theorem seed_store:
  "length initial_items = 1
   \<and> initial_items = [\<lparr>item_id = 1, name = JString ''Element''\<rparr>]
   \<and> items_after [] initial_items = initial_items
   \<and> sent (get_items initial_items)
       = [\<lparr>status = 200, body = JsonItems [\<lparr>item_id = 1, name = JString ''Element''\<rparr>]\<rparr>]
   \<and> thrown (get_items initial_items) = None"
  by (simp add: initial_items_def get_items_def)

subsection \<open>List\<close>

text \<open>
  C8. Listing answers 200 with the whole array in order and leaves the array as it was;
  any number \<open>n\<close> of consecutive listings gives \<open>n\<close> times that same answer and the same
  array afterwards.
\<close>

theorem get_items_no_side_effect:
  "store (get_items items) = items
   \<and> sent (get_items items) = [\<lparr>status = 200, body = JsonItems items\<rparr>]
   \<and> thrown (get_items items) = None
   \<and> serve (replicate n GET_items) items = replicate n (get_items items)
   \<and> items_after (replicate n GET_items) items = items"
proof -
  have st: "store (get_items items) = items"
    by (simp add: get_items_def)
  have "serve (replicate n GET_items) items = replicate n (get_items items)"
    by (induction n) (simp_all add: st)
  moreover have "items_after (replicate n GET_items) items = items"
    by (induction n) (simp_all add: st)
  ultimately show ?thesis
    by (simp add: get_items_def)
qed

subsection \<open>Create\<close>

text \<open>
  C3. On a store of \<open>N\<close> items, creating with a name answers 201 with the new item, whose
  id is \<open>N + 1\<close> and whose name is the given one; the new item is appended at the end, so a
  following listing shows \<open>N + 1\<close> items, the new one last and the first \<open>N\<close> as before.
\<close>

theorem post_items_appends:
  "post_items v items =
     \<lparr>store = items @ [\<lparr>item_id = int (length items) + 1, name = v\<rparr>],
      sent = [\<lparr>status = 201, body = JsonItem \<lparr>item_id = int (length items) + 1, name = v\<rparr>\<rparr>],
      thrown = None\<rparr>
   \<and> sent (get_items (store (post_items v items)))
       = [\<lparr>status = 200,
           body = JsonItems (items @ [\<lparr>item_id = int (length items) + 1, name = v\<rparr>])\<rparr>]
   \<and> length (store (post_items v items)) = length items + 1
   \<and> last (store (post_items v items)) = \<lparr>item_id = int (length items) + 1, name = v\<rparr>
   \<and> take (length items) (store (post_items v items)) = items"
  by (simp add: post_items_def get_items_def Let_def)

text \<open>
  C9. Creating validates nothing: whatever value \<open>req.body.name\<close> has, \<open>undefined\<close>,
  \<open>null\<close> or a number included, the handler raises nothing, answers 201, and appends an
  item with id \<open>N + 1\<close> whose name field is that value as it came.
\<close>

theorem post_items_no_validation:
  "thrown (post_items v items) = None
   \<and> map status (sent (post_items v items)) = [201]
   \<and> butlast (store (post_items v items)) = items
   \<and> item_id (last (store (post_items v items))) = int (length items) + 1
   \<and> name (last (store (post_items v items))) = v
   \<and> name (last (store (post_items JUndefined items))) = JUndefined
   \<and> name (last (store (post_items JNull items))) = JNull
   \<and> name (last (store (post_items (JNumber 7) items))) = JNumber 7"
  by (simp add: post_items_def Let_def)

subsection \<open>Update\<close>

text \<open>
  C5. When the segment parses to an id \<open>k\<close> that some stored item has, updating answers
  200 with the updated item \<open>{id: k, name: v}\<close> and raises nothing; the array afterwards is
  the array before with only the first position \<open>r\<close> holding id \<open>k\<close> replaced by that
  item, so every other item, the order and the length are as before.
\<close>

theorem put_items_found:
  assumes "parseInt seg = Some k" and "k \<in> item_id ` set items"
  shows "\<exists>r<length items.
           item_id (items ! r) = k \<and> (\<forall>j<r. item_id (items ! j) \<noteq> k)
           \<and> store (put_items seg v items) = items[r := \<lparr>item_id = k, name = v\<rparr>]
           \<and> sent (put_items seg v items)
               = [\<lparr>status = 200, body = JsonItem \<lparr>item_id = k, name = v\<rparr>\<rparr>]
           \<and> thrown (put_items seg v items) = None"
proof -
  let ?P = "\<lambda>i. strict_equals (item_id i) (parseInt seg)"
  from assms have "find_ref ?P items \<noteq> None"
    by (auto simp: find_ref_None_iff)
  then obtain r where r: "find_ref ?P items = Some r" by auto
  from find_ref_SomeD [OF r] assms(1)
  have lt: "r < length items" and at: "item_id (items ! r) = k"
    and before: "\<forall>j<r. item_id (items ! j) \<noteq> k"
    by simp_all
  from at have upd: "(items ! r)\<lparr>name := v\<rparr> = \<lparr>item_id = k, name = v\<rparr>"
    by simp
  from put_items_at [OF r, of v] upd lt at before show ?thesis
    by auto
qed

text \<open>The instance \<open>Update(2, "C")\<close> on \<open>[{1,"A"},{2,"B"}]\<close>.\<close>

theorem put_items_found_witness:
  "parseInt ''2'' = Some 2
   \<and> 2 \<in> item_id ` set [\<lparr>item_id = 1, name = JString ''A''\<rparr>,
                         \<lparr>item_id = 2, name = JString ''B''\<rparr>]
   \<and> store (put_items ''2'' (JString ''C'')
        [\<lparr>item_id = 1, name = JString ''A''\<rparr>, \<lparr>item_id = 2, name = JString ''B''\<rparr>])
       = [\<lparr>item_id = 1, name = JString ''A''\<rparr>, \<lparr>item_id = 2, name = JString ''C''\<rparr>]
   \<and> sent (put_items ''2'' (JString ''C'')
        [\<lparr>item_id = 1, name = JString ''A''\<rparr>, \<lparr>item_id = 2, name = JString ''B''\<rparr>])
       = [\<lparr>status = 200, body = JsonItem \<lparr>item_id = 2, name = JString ''C''\<rparr>\<rparr>]"
proof -
  let ?items = "[\<lparr>item_id = 1, name = JString ''A''\<rparr>, \<lparr>item_id = 2, name = JString ''B''\<rparr>]"
  have h1: "parseInt ''2'' = Some 2" by (simp add: parse_defs)
  have h2: "2 \<in> item_id ` set ?items" by simp
  from put_items_found [OF h1 h2, of "JString ''C''"]
  obtain r where r: "r < length ?items" "item_id (?items ! r) = 2"
    "store (put_items ''2'' (JString ''C'') ?items)
       = ?items[r := \<lparr>item_id = 2, name = JString ''C''\<rparr>]"
    "sent (put_items ''2'' (JString ''C'') ?items)
       = [\<lparr>status = 200, body = JsonItem \<lparr>item_id = 2, name = JString ''C''\<rparr>\<rparr>]"
    by blast
  from r(1,2) have "r = 1" by (cases r) auto
  with r(3,4) h1 h2 show ?thesis by simp
qed

text \<open>
  C1. Updating an id that no stored item has should answer not-found through a single
  early exit, without raising. On \<open>[{1,"A"}]\<close>, \<open>Update(99, "X")\<close> does answer 404 and
  leaves the array as it was, but the handler then falls through to the assignment and
  raises a TypeError.
\<close>

theorem put_items_missing_id_falls_through:
  "put_items ''99'' (JString ''X'') [\<lparr>item_id = 1, name = JString ''A''\<rparr>]
     = \<lparr>store = [\<lparr>item_id = 1, name = JString ''A''\<rparr>],
        sent = [\<lparr>status = 404, body = Text ''Item not found''\<rparr>],
        thrown = Some TypeError\<rparr>"
  by (simp add: put_items_def parse_defs)

subsection \<open>Delete\<close>

text \<open>
  C4. Deleting keeps, in their order, exactly the items whose id is not the number the
  segment parses to, answers 204 with an empty body and raises nothing, whether or not
  anything was removed; deleting the same id again gives the same array and the same answer.
\<close>

theorem delete_items_exact:
  "store (delete_items seg items) = filter (\<lambda>i. parseInt seg \<noteq> Some (item_id i)) items
   \<and> subseq (store (delete_items seg items)) items
   \<and> sent (delete_items seg items) = [\<lparr>status = 204, body = Empty\<rparr>]
   \<and> thrown (delete_items seg items) = None
   \<and> delete_items seg (store (delete_items seg items)) = delete_items seg items"
proof -
  have eq: "(\<lambda>i. \<not> strict_equals (item_id i) (parseInt seg))
              = (\<lambda>i. parseInt seg \<noteq> Some (item_id i))"
    by (cases "parseInt seg") auto
  show ?thesis
    by (simp add: delete_items_def eq)
qed

subsection \<open>Segments that are not numbers\<close>

text \<open>
  The segment \<open>1abc\<close> is not a number, yet \<open>parseInt\<close> reads its leading digit: deleting
  \<open>/items/1abc\<close> removes the seed item and updating it answers 200.
\<close>

theorem non_numeric_segment_counterexample:
  "\<not> list_all (is_radix_digit 10) ''1abc''
   \<and> parseInt ''1abc'' = Some 1
   \<and> store (delete_items ''1abc'' initial_items) = []
   \<and> store (delete_items ''1abc'' initial_items) \<noteq> initial_items
   \<and> put_items ''1abc'' (JString ''X'') initial_items
       = \<lparr>store = [\<lparr>item_id = 1, name = JString ''X''\<rparr>],
          sent = [\<lparr>status = 200, body = JsonItem \<lparr>item_id = 1, name = JString ''X''\<rparr>\<rparr>],
          thrown = None\<rparr>"
  by (simp add: initial_items_def put_items_def delete_items_def parse_defs)

text \<open>
  C6, amended. When \<open>parseInt\<close> reads the segment as \<open>NaN\<close>, the request behaves as for
  an id that no stored item has: deleting leaves the array as it was and answers 204,
  updating leaves the array as it was and answers 404 \<open>Item not found\<close>, and both outcomes
  are those of the same request with any segment that parses to an absent id.
\<close>

theorem nan_id_as_absent:
  assumes "parseInt seg = None"
  shows "delete_items seg items
           = \<lparr>store = items, sent = [\<lparr>status = 204, body = Empty\<rparr>], thrown = None\<rparr>
         \<and> store (put_items seg v items) = items
         \<and> sent (put_items seg v items) = [\<lparr>status = 404, body = Text ''Item not found''\<rparr>]
         \<and> (\<forall>seg' k. parseInt seg' = Some k \<and> k \<notin> item_id ` set items
               \<longrightarrow> put_items seg v items = put_items seg' v items
                 \<and> delete_items seg items = delete_items seg' items)"
proof -
  have none: "find_ref (\<lambda>i. strict_equals (item_id i) (parseInt seg)) items = None"
    by (simp add: assms find_ref_None_iff)
  have del: "delete_items seg items
               = \<lparr>store = items, sent = [\<lparr>status = 204, body = Empty\<rparr>], thrown = None\<rparr>"
    by (simp add: delete_items_def assms)
  have absent: "put_items seg v items = put_items seg' v items
                \<and> delete_items seg items = delete_items seg' items"
    if "parseInt seg' = Some k" and "k \<notin> item_id ` set items" for seg' k
  proof -
    from that have "find_ref (\<lambda>i. strict_equals (item_id i) (parseInt seg')) items = None"
      by (auto simp: find_ref_None_iff)
    then have "put_items seg v items = put_items seg' v items"
      by (simp add: put_items_not_found none)
    moreover from that
    have "filter (\<lambda>i. \<not> strict_equals (item_id i) (parseInt seg')) items = items"
      by (auto simp: filter_id_conv)
    then have "delete_items seg items = delete_items seg' items"
      by (simp add: del) (simp add: delete_items_def)
    ultimately show ?thesis by simp
  qed
  from del absent show ?thesis
    by (simp add: put_items_not_found [OF none])
qed

text \<open>The instance: segment \<open>abc\<close> against segment \<open>99\<close> on the seeded store.\<close>

theorem nan_id_as_absent_witness:
  "parseInt ''abc'' = None
   \<and> parseInt ''99'' = Some 99
   \<and> 99 \<notin> item_id ` set initial_items
   \<and> delete_items ''abc'' initial_items
       = \<lparr>store = initial_items, sent = [\<lparr>status = 204, body = Empty\<rparr>], thrown = None\<rparr>
   \<and> store (put_items ''abc'' (JString ''X'') initial_items) = initial_items
   \<and> sent (put_items ''abc'' (JString ''X'') initial_items)
       = [\<lparr>status = 404, body = Text ''Item not found''\<rparr>]
   \<and> put_items ''abc'' (JString ''X'') initial_items
       = put_items ''99'' (JString ''X'') initial_items
   \<and> delete_items ''abc'' initial_items = delete_items ''99'' initial_items"
proof -
  have h: "parseInt ''abc'' = None" by (simp add: parse_defs)
  have h1: "parseInt ''99'' = Some 99" by (simp add: parse_defs)
  have h2: "99 \<notin> item_id ` set initial_items" by (simp add: initial_items_def)
  from nan_id_as_absent [OF h, of initial_items "JString ''X''"] h h1 h2 show ?thesis
    by blast
qed

subsection \<open>Ids\<close>

text \<open>
  C10. No handler changes the id of an item that is in the array: updating leaves the
  sequence of ids (and so the length) as it was, creating leaves the items already there
  as they were, deleting leaves a subsequence of the items as they were, and listing
  leaves the array as it was.
\<close>

theorem ids_stable:
  "map item_id (store (put_items seg v items)) = map item_id items
   \<and> length (store (put_items seg v items)) = length items
   \<and> take (length items) (store (post_items v items)) = items
   \<and> subseq (store (delete_items seg items)) items
   \<and> store (get_items items) = items"
proof -
  have "length (map item_id (store (put_items seg v items))) = length (map item_id items)"
    by (simp only: put_items_ids)
  then have "length (store (put_items seg v items)) = length items"
    by simp
  then show ?thesis
    by (simp add: put_items_ids post_items_def delete_items_def get_items_def Let_def)
qed

text \<open>
  C2. The ids of the stored items should be pairwise distinct in every state reached
  from the seed. Create, Delete of id 1, Create reaches a store with two items of id 2:
  the second Create takes \<open>items.length + 1\<close> on an array of length one.
\<close>

theorem create_after_delete_reissues_id:
  "items_after [POST_items (JString ''Pen''), DELETE_items ''1'', POST_items (JString ''Ink'')]
       initial_items
     = [\<lparr>item_id = 2, name = JString ''Pen''\<rparr>, \<lparr>item_id = 2, name = JString ''Ink''\<rparr>]
   \<and> \<not> distinct (map item_id
         (items_after
            [POST_items (JString ''Pen''), DELETE_items ''1'', POST_items (JString ''Ink'')]
            initial_items))"
  by (simp add: initial_items_def post_items_def delete_items_def parse_defs Let_def)

end
